theory Spec2Isabelle
  imports Main
begin

section \<open>The configuration script modularflow_config.py\<close>

text \<open>
  The script holds nine module-level constants, a class \<open>ManosabaAIConfig\<close> with five
  getters and the method \<open>install\<close>, and a command-line entry point. A Python \<open>str\<close> is
  modelled by its UTF-8 encoding, one \<^typ>\<open>char\<close> per byte, so that the text printed on
  standard output is the byte sequence a UTF-8 terminal receives. Python's unbounded
  \<open>int\<close> is \<^typ>\<open>int\<close>.
\<close>

subsection \<open>Module constants\<close>

record constants =
  FRONTEND_PORT :: int
  BACKEND_PORT :: int
  WEBSOCKET_PORT :: int
  PROJECT_NAME :: string
  DISPLAY_NAME :: string
  PROJECT_TYPE :: string
  INSTALL_COMMAND :: string
  DEV_COMMAND :: string
  BUILD_COMMAND :: string

definition default_constants :: constants where
  "default_constants =
     \<lparr>FRONTEND_PORT = 3002, BACKEND_PORT = 8000, WEBSOCKET_PORT = 8000,
      PROJECT_NAME = ''manosaba_ai'', DISPLAY_NAME = ''Manosaba AI'',
      PROJECT_TYPE = ''nextjs'',
      INSTALL_COMMAND = ''pnpm install'', DEV_COMMAND = ''pnpm run dev'',
      BUILD_COMMAND = ''pnpm run build''\<rparr>"

subsection \<open>Python values\<close>

text \<open>
  The values the script builds: strings, integers, booleans, lists, and dictionaries
  with string keys. A dictionary is an association list in insertion order, which is
  the order \<open>json.dumps\<close> writes.
\<close>

datatype pyval =
    PStr string
  | PInt int
  | PBool bool
  | PNone
  | PList "pyval list"
  | PDict "(string \<times> pyval) list"

datatype py_exception =
    CalledProcessError int "string list"
  | OSError
  | IndexError
  | KeyError string
  | TypeError

text \<open>\<open>d[k]\<close>: the first binding of \<open>k\<close>, or \<open>KeyError\<close>.\<close>

fun getitem :: "pyval \<Rightarrow> string \<Rightarrow> py_exception + pyval" where
  "getitem (PDict kvs) k = (case map_of kvs k of None \<Rightarrow> Inl (KeyError k) | Some v \<Rightarrow> Inr v)"
| "getitem _ k = Inl TypeError"

subsection \<open>Formatting an integer in an f-string\<close>

text \<open>The digit of a value below ten; \<open>str_nat\<close> asks for no other.\<close>

definition digit_char :: "nat \<Rightarrow> char" where
  "digit_char d = ''0123456789'' ! d"

function str_nat :: "nat \<Rightarrow> string" where
  "str_nat n = (if n < 10 then [digit_char n] else str_nat (n div 10) @ [digit_char (n mod 10)])"
  by pat_completeness auto
termination
  by (relation "measure id") auto

declare str_nat.simps [simp del]

text \<open>\<open>str(n)\<close> for an \<open>int\<close>: decimal digits, with a minus sign below zero.\<close>

definition str_int :: "int \<Rightarrow> string" where
  "str_int i = (if i < 0 then CHR ''-'' # str_nat (nat (- i)) else str_nat (nat i))"

subsection \<open>The getters of ManosabaAIConfig\<close>

definition description_text :: string where
  \<comment> \<open>U+57FA U+4E8E "Next.js" U+7684 "AI" U+667A U+80FD U+52A9 U+624B U+5E94 U+7528\<close>
  "description_text =
     [CHR 0xE5, CHR 0x9F, CHR 0xBA, CHR 0xE4, CHR 0xBA, CHR 0x8E] @ ''Next.js'' @
     [CHR 0xE7, CHR 0x9A, CHR 0x84] @ ''AI'' @
     [CHR 0xE6, CHR 0x99, CHR 0xBA, CHR 0xE8, CHR 0x83, CHR 0xBD, CHR 0xE5, CHR 0x8A, CHR 0xA9,
      CHR 0xE6, CHR 0x89, CHR 0x8B, CHR 0xE5, CHR 0xBA, CHR 0x94, CHR 0xE7, CHR 0x94, CHR 0xA8]"

definition get_project_info :: "constants \<Rightarrow> pyval" where
  "get_project_info c = PDict
     [(''name'', PStr (PROJECT_NAME c)),
      (''display_name'', PStr (DISPLAY_NAME c)),
      (''version'', PStr ''1.0.0''),
      (''description'', PStr description_text),
      (''type'', PStr (PROJECT_TYPE c)),
      (''author'', PStr ''Manosaba Team''),
      (''license'', PStr ''MIT'')]"

definition get_runtime_config :: "constants \<Rightarrow> pyval" where
  "get_runtime_config c = PDict
     [(''port'', PInt (FRONTEND_PORT c)),
      (''install_command'', PStr (INSTALL_COMMAND c)),
      (''dev_command'', PStr (DEV_COMMAND c)),
      (''build_command'', PStr (BUILD_COMMAND c)),
      (''test_command'', PStr ''pnpm test''),
      (''lint_command'', PStr ''pnpm run lint'')]"

definition get_dependencies :: "constants \<Rightarrow> pyval" where
  "get_dependencies c = PDict
     [(''required_tools'', PList [PStr ''node'', PStr ''pnpm'']),
      (''optional_tools'', PList [PStr ''yarn'', PStr ''npm'']),
      (''node_version'', PStr ''>=18.0.0''),
      (''pnpm_version'', PStr ''>=8.0.0'')]"

definition get_api_config :: "constants \<Rightarrow> pyval" where
  "get_api_config c = PDict
     [(''api_endpoint'', PStr (''http://localhost:'' @ str_int (BACKEND_PORT c) @ ''/api/v1'')),
      (''websocket_url'', PStr (''ws://localhost:'' @ str_int (WEBSOCKET_PORT c) @ ''/ws'')),
      (''cors_origins'', PList [PStr (''http://localhost:'' @ str_int (FRONTEND_PORT c))])]"

definition get_env_config :: "constants \<Rightarrow> pyval" where
  "get_env_config c = PDict
     [(''development'', PDict
        [(''NODE_ENV'', PStr ''development''),
         (''NEXT_PUBLIC_API_URL'', PStr (''http://localhost:'' @ str_int (BACKEND_PORT c))),
         (''NEXT_PUBLIC_WS_URL'', PStr (''ws://localhost:'' @ str_int (WEBSOCKET_PORT c) @ ''/ws''))]),
      (''production'', PDict
        [(''NODE_ENV'', PStr ''production''),
         (''NEXT_PUBLIC_API_URL'', PStr ''https://api.manosaba.com''),
         (''NEXT_PUBLIC_WS_URL'', PStr ''wss://api.manosaba.com/ws'')])]"

subsection \<open>Splitting a command line: \<open>str.split()\<close>\<close>

text \<open>
  \<open>s.split()\<close> with no argument cuts at runs of whitespace and drops empty tokens.
  \<open>ws_len\<close> gives the number of bytes of the whitespace character at the head of the
  text (0 when the head is not whitespace), for the characters \<open>str.isspace\<close> accepts:
  U+0009..U+000D, U+001C..U+0020, U+0085, U+00A0, U+1680, U+2000..U+200A, U+2028,
  U+2029, U+202F, U+205F and U+3000, in UTF-8.
\<close>

definition ascii_space :: "char \<Rightarrow> bool" where
  "ascii_space c =
     (let n = (of_char c :: nat) in (9 \<le> n \<and> n \<le> 13) \<or> (28 \<le> n \<and> n \<le> 32))"

fun ws_len :: "string \<Rightarrow> nat" where
  "ws_len [] = 0"
| "ws_len (c # cs) =
     (if ascii_space c then 1
      else if c = CHR 0xC2 then
        (case cs of d # _ \<Rightarrow> (if d = CHR 0x85 \<or> d = CHR 0xA0 then 2 else 0) | [] \<Rightarrow> 0)
      else if c = CHR 0xE1 then
        (if take 2 cs = [CHR 0x9A, CHR 0x80] then 3 else 0)
      else if c = CHR 0xE2 then
        (case cs of
           d # e # _ \<Rightarrow>
             (let n = (of_char e :: nat) in
              if d = CHR 0x80 \<and> ((128 \<le> n \<and> n \<le> 138) \<or> n = 168 \<or> n = 169 \<or> n = 175) then 3
              else if d = CHR 0x81 \<and> e = CHR 0x9F then 3
              else 0)
         | _ \<Rightarrow> 0)
      else if c = CHR 0xE3 then
        (if take 2 cs = [CHR 0x80, CHR 0x80] then 3 else 0)
      else 0)"

function split_from :: "string \<Rightarrow> string \<Rightarrow> string list" where
  "split_from cur [] = (if cur = [] then [] else [cur])"
| "split_from cur (c # cs) =
     (if 0 < ws_len (c # cs)
      then (if cur = [] then [] else [cur]) @ split_from [] (drop (ws_len (c # cs)) (c # cs))
      else split_from (cur @ [c]) cs)"
  by pat_completeness auto
termination
  by (relation "measure (\<lambda>(cur, s). length s)") auto

definition split :: "string \<Rightarrow> string list" where
  "split s = split_from [] s"

subsection \<open>The process environment\<close>

text \<open>
  What the script takes from outside: the working directory, what launching a command
  does, and three texts produced by library code (\<open>str(e)\<close> of an exception,
  \<open>str\<close> of a container, and argparse's help text).
\<close>

datatype child_outcome = Exited int | LaunchFailed

record environment =
  getcwd :: string
  run_child :: "string list \<Rightarrow> string \<Rightarrow> child_outcome"
  exception_text :: "py_exception \<Rightarrow> string"
  container_text :: "pyval \<Rightarrow> string"
  help_text :: string

text \<open>
  \<open>subprocess.run(args, cwd=cwd, check=True)\<close>: an empty argument vector raises
  \<open>IndexError\<close>, a command that cannot be launched raises an \<open>OSError\<close> (for example
  \<open>FileNotFoundError\<close>), and a non-zero return code raises \<open>CalledProcessError\<close>.
\<close>

definition subprocess_run :: "environment \<Rightarrow> string list \<Rightarrow> string \<Rightarrow> py_exception + int" where
  "subprocess_run env args cwd =
     (if args = [] then Inl IndexError
      else case run_child env args cwd of
             LaunchFailed \<Rightarrow> Inl OSError
           | Exited rc \<Rightarrow> (if rc = 0 then Inr rc else Inl (CalledProcessError rc args)))"

subsection \<open>install\<close>

definition msg_installing :: string where
  \<comment> \<open>U+1F680, space, U+5B89 U+88C5, space\<close>
  "msg_installing =
     [CHR 0xF0, CHR 0x9F, CHR 0x9A, CHR 0x80] @ '' '' @
     [CHR 0xE5, CHR 0xAE, CHR 0x89, CHR 0xE8, CHR 0xA3, CHR 0x85] @ '' ''"

definition msg_done :: string where
  \<comment> \<open>U+2705, space, U+5B89 U+88C5 U+5B8C U+6210\<close>
  "msg_done =
     [CHR 0xE2, CHR 0x9C, CHR 0x85] @ '' '' @
     [CHR 0xE5, CHR 0xAE, CHR 0x89, CHR 0xE8, CHR 0xA3, CHR 0x85,
      CHR 0xE5, CHR 0xAE, CHR 0x8C, CHR 0xE6, CHR 0x88, CHR 0x90]"

definition msg_failed :: string where
  \<comment> \<open>U+274C, space, U+5B89 U+88C5 U+5931 U+8D25, colon, space\<close>
  "msg_failed =
     [CHR 0xE2, CHR 0x9D, CHR 0x8C] @ '' '' @
     [CHR 0xE5, CHR 0xAE, CHR 0x89, CHR 0xE8, CHR 0xA3, CHR 0x85,
      CHR 0xE5, CHR 0xA4, CHR 0xB1, CHR 0xE8, CHR 0xB4, CHR 0xA5] @ '': ''"

text \<open>
  Standard output is the list of texts printed so far, one entry per \<open>print\<close> call.
  The handler of \<open>install\<close> names \<open>CalledProcessError\<close> only; any other exception of
  \<open>subprocess.run\<close> leaves the method.
\<close>

definition install :: "constants \<Rightarrow> environment \<Rightarrow> string list \<Rightarrow> (py_exception + bool) \<times> string list" where
  "install c env out =
     (let out1 = out @ [msg_installing @ DISPLAY_NAME c @ ''...'']
      in case subprocess_run env (split (INSTALL_COMMAND c)) (getcwd env) of
           Inr _ \<Rightarrow> (Inr True, out1 @ [msg_done])
         | Inl (CalledProcessError rc cmd) \<Rightarrow>
             (Inr False, out1 @ [msg_failed @ exception_text env (CalledProcessError rc cmd)])
         | Inl e \<Rightarrow> (Inl e, out1))"

subsection \<open>\<open>json.dumps(obj, indent=2, ensure_ascii=False)\<close>\<close>

text \<open>
  With \<open>ensure_ascii=False\<close> the encoder escapes the double quote, the backslash and
  the control characters below U+0020 only: \<open>\b \f \n \r \t\<close> by name, the others as
  \<open>\u00xx\<close> in lower-case hexadecimal. Every other byte is written as it is.
\<close>

text \<open>The hexadecimal digit of a value below sixteen.\<close>

definition hex_char :: "nat \<Rightarrow> char" where
  "hex_char d = ''0123456789abcdef'' ! d"

definition escape_char :: "char \<Rightarrow> string" where
  "escape_char c =
     (if c = CHR 0x22 then [CHR 0x5C, CHR 0x22]
      else if c = CHR 0x5C then [CHR 0x5C, CHR 0x5C]
      else if c = CHR 0x08 then [CHR 0x5C, CHR ''b'']
      else if c = CHR 0x0C then [CHR 0x5C, CHR ''f'']
      else if c = CHR 0x0A then [CHR 0x5C, CHR ''n'']
      else if c = CHR 0x0D then [CHR 0x5C, CHR ''r'']
      else if c = CHR 0x09 then [CHR 0x5C, CHR ''t'']
      else if (of_char c :: nat) < 32 then
        [CHR 0x5C, CHR ''u'', CHR ''0'', CHR ''0'',
         hex_char ((of_char c :: nat) div 16), hex_char ((of_char c :: nat) mod 16)]
      else [c])"

definition encode_basestring :: "string \<Rightarrow> string" where
  "encode_basestring s = CHR 0x22 # concat (map escape_char s) @ [CHR 0x22]"

definition newline_indent :: "nat \<Rightarrow> string" where
  "newline_indent level = CHR 0x0A # replicate (2 * level) CHR '' ''"

text \<open>
  The encoder's loops over the items of a list and of a dictionary write the separator
  \<open>","\<close> followed by the newline and indentation before every item but the first.
  \<open>level\<close> is the nesting depth of the value being written.
\<close>

fun iterencode :: "nat \<Rightarrow> pyval \<Rightarrow> string"
  and iterencode_list :: "nat \<Rightarrow> pyval list \<Rightarrow> string"
  and iterencode_dict :: "nat \<Rightarrow> (string \<times> pyval) list \<Rightarrow> string"
where
  "iterencode level (PStr s) = encode_basestring s"
| "iterencode level (PInt i) = str_int i"
| "iterencode level (PBool b) = (if b then ''true'' else ''false'')"
| "iterencode level PNone = ''null''"
| "iterencode level (PList xs) =
     (if xs = [] then ''[]''
      else ''['' @ newline_indent (level + 1) @ iterencode_list (level + 1) xs @
           newline_indent level @ '']'')"
| "iterencode level (PDict kvs) =
     (if kvs = [] then ''{}''
      else ''{'' @ newline_indent (level + 1) @ iterencode_dict (level + 1) kvs @
           newline_indent level @ ''}'')"
| "iterencode_list level [] = []"
| "iterencode_list level [x] = iterencode level x"
| "iterencode_list level (x # y # ys) =
     iterencode level x @ '','' @ newline_indent level @ iterencode_list level (y # ys)"
| "iterencode_dict level [] = []"
| "iterencode_dict level [(k, v)] = encode_basestring k @ '': '' @ iterencode level v"
| "iterencode_dict level ((k, v) # kv # kvs) =
     encode_basestring k @ '': '' @ iterencode level v @ '','' @ newline_indent level @
     iterencode_dict level (kv # kvs)"

definition json_dumps :: "pyval \<Rightarrow> string" where
  "json_dumps obj = iterencode 0 obj"

subsection \<open>The command-line entry point\<close>

text \<open>
  \<open>parser.parse_args()\<close> yields a namespace of three booleans, one per
  \<open>store_true\<close> flag; the entry point is modelled from that namespace on.
\<close>

record namespace =
  arg_get_config :: bool
  arg_install :: bool
  arg_info :: bool

definition label_project :: string where
  \<comment> \<open>U+9879 U+76EE, colon, space\<close>
  "label_project = [CHR 0xE9, CHR 0xA1, CHR 0xB9, CHR 0xE7, CHR 0x9B, CHR 0xAE] @ '': ''"

definition label_type :: string where
  \<comment> \<open>U+7C7B U+578B, colon, space\<close>
  "label_type = [CHR 0xE7, CHR 0xB1, CHR 0xBB, CHR 0xE5, CHR 0x9E, CHR 0x8B] @ '': ''"

definition label_port :: string where
  \<comment> \<open>U+7AEF U+53E3, colon, space\<close>
  "label_port = [CHR 0xE7, CHR 0xAB, CHR 0xAF, CHR 0xE5, CHR 0x8F, CHR 0xA3] @ '': ''"

text \<open>A value inside an f-string: \<open>format(v, "")\<close>, which is \<open>str(v)\<close>.\<close>

definition format_value :: "environment \<Rightarrow> pyval \<Rightarrow> string" where
  "format_value env v =
     (case v of
        PStr s \<Rightarrow> s
      | PInt i \<Rightarrow> str_int i
      | PBool b \<Rightarrow> (if b then ''True'' else ''False'')
      | PNone \<Rightarrow> ''None''
      | _ \<Rightarrow> container_text env v)"

definition config_document :: "constants \<Rightarrow> pyval" where
  "config_document c = PDict
     [(''project'', get_project_info c),
      (''runtime'', get_runtime_config c),
      (''dependencies'', get_dependencies c),
      (''api'', get_api_config c),
      (''environment'', get_env_config c)]"

definition print_info :: "constants \<Rightarrow> environment \<Rightarrow> string list \<Rightarrow> (py_exception + unit) \<times> string list" where
  "print_info c env out =
     (let info = get_project_info c in
      case getitem info ''display_name'' of
        Inl e \<Rightarrow> (Inl e, out)
      | Inr d \<Rightarrow>
      (case getitem info ''name'' of
        Inl e \<Rightarrow> (Inl e, out)
      | Inr n \<Rightarrow>
      (let out1 = out @ [label_project @ format_value env d @ '' ('' @ format_value env n @ '')'']
       in case getitem info ''type'' of
        Inl e \<Rightarrow> (Inl e, out1)
      | Inr t \<Rightarrow>
          (Inr (), out1 @ [label_type @ format_value env t]
                        @ [label_port @ str_int (FRONTEND_PORT c)]))))"

definition main :: "constants \<Rightarrow> environment \<Rightarrow> namespace \<Rightarrow> string list \<Rightarrow> (py_exception + unit) \<times> string list" where
  "main c env args out =
     (if arg_get_config args then (Inr (), out @ [json_dumps (config_document c)])
      else if arg_install args then
        (case install c env out of
           (Inl e, out') \<Rightarrow> (Inl e, out')
         | (Inr b, out') \<Rightarrow> (Inr (), out'))
      else if arg_info args then print_info c env out
      else (Inr (), out @ [help_text env]))"

subsection \<open>Calling an operation of the facade\<close>

datatype operation =
    GetProjectInfo | GetRuntimeConfig | GetDependencies | GetApiConfig | GetEnvConfig | Install

text \<open>
  One method call on a \<open>ManosabaAIConfig\<close> object: what it returns or raises, and
  standard output afterwards.
\<close>

definition invoke :: "constants \<Rightarrow> environment \<Rightarrow> operation \<Rightarrow> string list \<Rightarrow> (py_exception + pyval) \<times> string list" where
  "invoke c env op out =
     (case op of
        GetProjectInfo \<Rightarrow> (Inr (get_project_info c), out)
      | GetRuntimeConfig \<Rightarrow> (Inr (get_runtime_config c), out)
      | GetDependencies \<Rightarrow> (Inr (get_dependencies c), out)
      | GetApiConfig \<Rightarrow> (Inr (get_api_config c), out)
      | GetEnvConfig \<Rightarrow> (Inr (get_env_config c), out)
      | Install \<Rightarrow>
          (case install c env out of
             (Inl e, out') \<Rightarrow> (Inl e, out')
           | (Inr b, out') \<Rightarrow> (Inr (PBool b), out')))"

subsection \<open>Reading the results\<close>

text \<open>\<open>d[k1][k2]\<close>, the lookup in a nested dictionary.\<close>

definition getitem2 :: "pyval \<Rightarrow> string \<Rightarrow> string \<Rightarrow> py_exception + pyval" where
  "getitem2 d k1 k2 = (case getitem d k1 of Inl e \<Rightarrow> Inl e | Inr v \<Rightarrow> getitem v k2)"

text \<open>
  An operation has failed when it raised or returned \<open>False\<close>, the value \<open>install\<close>
  reports a failed installation with.
\<close>

definition failed :: "py_exception + pyval \<Rightarrow> bool" where
  "failed r = (case r of Inl e \<Rightarrow> True | Inr v \<Rightarrow> v = PBool False)"

text \<open>
  Filling a template: every \<open>{NAME}\<close> of the template is replaced by the text that
  \<open>field\<close> gives for \<open>NAME\<close>; all other characters are copied. The second argument
  is the field name read so far, if a brace is open.
\<close>

fun interpolate_from :: "(string \<Rightarrow> string) \<Rightarrow> string option \<Rightarrow> string \<Rightarrow> string" where
  "interpolate_from field None [] = []"
| "interpolate_from field (Some name) [] = CHR ''{'' # name"
| "interpolate_from field None (c # cs) =
     (if c = CHR ''{'' then interpolate_from field (Some []) cs
      else c # interpolate_from field None cs)"
| "interpolate_from field (Some name) (c # cs) =
     (if c = CHR ''}'' then field name @ interpolate_from field None cs
      else interpolate_from field (Some (name @ [c])) cs)"

definition interpolate :: "string \<Rightarrow> (string \<Rightarrow> string) \<Rightarrow> string" where
  "interpolate template field = interpolate_from field None template"

text \<open>The value of a string of decimal digits, and of an optionally signed one.\<close>

definition is_digit :: "char \<Rightarrow> bool" where
  "is_digit c = (let n = (of_char c :: nat) in 48 \<le> n \<and> n \<le> 57)"

definition digits_value :: "string \<Rightarrow> nat" where
  "digits_value ds = foldl (\<lambda>a c. 10 * a + (of_char c - 48)) 0 ds"

text \<open>
  Two environments: one where the install command cannot be launched (the executable
  is not on the search path), one where every command runs and exits with status 1.
\<close>

definition unlaunchable_env :: environment where
  "unlaunchable_env =
     \<lparr>getcwd = ''/'', run_child = (\<lambda>args cwd. LaunchFailed),
      exception_text = (\<lambda>e. []), container_text = (\<lambda>v. []), help_text = []\<rparr>"

definition failing_env :: environment where
  "failing_env =
     \<lparr>getcwd = ''/'', run_child = (\<lambda>args cwd. Exited 1),
      exception_text = (\<lambda>e. []), container_text = (\<lambda>v. []), help_text = []\<rparr>"

text \<open>Calling the same operation twice in a row, with the constants unchanged.\<close>

definition call_twice ::
  "constants \<Rightarrow> environment \<Rightarrow> operation \<Rightarrow> string list \<Rightarrow>
     (py_exception + pyval) \<times> (py_exception + pyval) \<times> string list" where
  "call_twice c env op out =
     (case invoke c env op out of
        (r1, out1) \<Rightarrow> (case invoke c env op out1 of (r2, out2) \<Rightarrow> (r1, r2, out2)))"

subsection \<open>Reading JSON text\<close>

text \<open>
  A reader for JSON texts (RFC 8259), by recursive descent. It accepts the grammar's
  values without fractions and exponents, and \<open>\u\<close> escapes below U+0080 only. An
  object is returned as its members in the order of the text. The first argument
  bounds the depth of the recursion; \<open>json_loads\<close> starts it at twice the length of the
  text plus one.
\<close>

definition is_ws :: "char \<Rightarrow> bool" where
  "is_ws c = (c = CHR '' '' \<or> c = CHR 0x0A \<or> c = CHR 0x0D \<or> c = CHR 0x09)"

definition skip_ws :: "string \<Rightarrow> string" where
  "skip_ws s = dropWhile is_ws s"

definition hex_value :: "char \<Rightarrow> nat option" where
  "hex_value c =
     (let n = (of_char c :: nat) in
      if 48 \<le> n \<and> n \<le> 57 then Some (n - 48)
      else if 97 \<le> n \<and> n \<le> 102 then Some (n - 87)
      else if 65 \<le> n \<and> n \<le> 70 then Some (n - 55)
      else None)"

definition unicode_escape :: "char \<Rightarrow> char \<Rightarrow> char \<Rightarrow> char \<Rightarrow> char option" where
  "unicode_escape h1 h2 h3 h4 =
     (case (hex_value h1, hex_value h2, hex_value h3, hex_value h4) of
        (Some a, Some b, Some c, Some d) \<Rightarrow>
          (let n = 4096 * a + 256 * b + 16 * c + d in if n < 128 then Some (char_of n) else None)
      | _ \<Rightarrow> None)"

definition simple_escape :: "char \<Rightarrow> char option" where
  "simple_escape e =
     (if e = CHR 0x22 then Some (CHR 0x22)
      else if e = CHR 0x5C then Some (CHR 0x5C)
      else if e = CHR ''/'' then Some (CHR ''/'')
      else if e = CHR ''b'' then Some (CHR 0x08)
      else if e = CHR ''f'' then Some (CHR 0x0C)
      else if e = CHR ''n'' then Some (CHR 0x0A)
      else if e = CHR ''r'' then Some (CHR 0x0D)
      else if e = CHR ''t'' then Some (CHR 0x09)
      else None)"

text \<open>The characters of a string, from behind its opening quote up to the closing one.\<close>

fun scan_string :: "string \<Rightarrow> (string \<times> string) option" where
  "scan_string [] = None"
| "scan_string (c # cs) =
     (if c = CHR 0x22 then Some ([], cs)
      else if c = CHR 0x5C then
        (case cs of
           [] \<Rightarrow> None
         | e # r \<Rightarrow>
             (if e = CHR ''u'' then
                (case r of
                   h1 # h2 # h3 # h4 # r' \<Rightarrow>
                     (case unicode_escape h1 h2 h3 h4 of
                        None \<Rightarrow> None
                      | Some d \<Rightarrow> map_option (apfst ((#) d)) (scan_string r'))
                 | _ \<Rightarrow> None)
              else
                (case simple_escape e of
                   None \<Rightarrow> None
                 | Some d \<Rightarrow> map_option (apfst ((#) d)) (scan_string r))))
      else if (of_char c :: nat) < 32 then None
      else map_option (apfst ((#) c)) (scan_string cs))"

definition starts_fraction :: "string \<Rightarrow> bool" where
  "starts_fraction s = (case s of [] \<Rightarrow> False | c # _ \<Rightarrow> c = CHR ''.'' \<or> c = CHR ''e'' \<or> c = CHR ''E'')"

definition scan_digits :: "string \<Rightarrow> (nat \<times> string) option" where
  "scan_digits s =
     (let ds = takeWhile is_digit s; rest = dropWhile is_digit s
      in if ds = [] then None
         else if hd ds = CHR ''0'' \<and> 1 < length ds then None
         else if starts_fraction rest then None
         else Some (digits_value ds, rest))"

definition scan_number :: "string \<Rightarrow> (int \<times> string) option" where
  "scan_number s =
     (case s of
        [] \<Rightarrow> None
      | c # cs \<Rightarrow>
          (if c = CHR ''-'' then map_option (apfst (\<lambda>n. - int n)) (scan_digits cs)
           else map_option (apfst int) (scan_digits s)))"

fun parse_value :: "nat \<Rightarrow> string \<Rightarrow> (pyval \<times> string) option"
  and parse_elements :: "nat \<Rightarrow> string \<Rightarrow> (pyval list \<times> string) option"
  and parse_members :: "nat \<Rightarrow> string \<Rightarrow> ((string \<times> pyval) list \<times> string) option"
where
  "parse_value 0 s = None"
| "parse_value (Suc n) [] = None"
| "parse_value (Suc n) (c # cs) =
     (if c = CHR 0x22 then map_option (apfst PStr) (scan_string cs)
      else if c = CHR ''['' then
        (case skip_ws cs of
           [] \<Rightarrow> None
         | d # r \<Rightarrow> (if d = CHR '']'' then Some (PList [], r)
                     else map_option (apfst PList) (parse_elements n (d # r))))
      else if c = CHR ''{'' then
        (case skip_ws cs of
           [] \<Rightarrow> None
         | d # r \<Rightarrow> (if d = CHR ''}'' then Some (PDict [], r)
                     else map_option (apfst PDict) (parse_members n (d # r))))
      else if take 4 (c # cs) = ''true'' then Some (PBool True, drop 4 (c # cs))
      else if take 5 (c # cs) = ''false'' then Some (PBool False, drop 5 (c # cs))
      else if take 4 (c # cs) = ''null'' then Some (PNone, drop 4 (c # cs))
      else map_option (apfst PInt) (scan_number (c # cs)))"
| "parse_elements 0 s = None"
| "parse_elements (Suc n) s =
     (case parse_value n s of
        None \<Rightarrow> None
      | Some (v, r) \<Rightarrow>
          (case skip_ws r of
             [] \<Rightarrow> None
           | d # r' \<Rightarrow>
               (if d = CHR '']'' then Some ([v], r')
                else if d = CHR '','' then
                  map_option (apfst ((#) v)) (parse_elements n (skip_ws r'))
                else None)))"
| "parse_members 0 s = None"
| "parse_members (Suc n) [] = None"
| "parse_members (Suc n) (q # s) =
     (if q = CHR 0x22 then
        (case scan_string s of
           None \<Rightarrow> None
         | Some (k, r1) \<Rightarrow>
             (case skip_ws r1 of
                [] \<Rightarrow> None
              | colon # r2 \<Rightarrow>
                  (if colon = CHR '':'' then
                     (case parse_value n (skip_ws r2) of
                        None \<Rightarrow> None
                      | Some (v, r3) \<Rightarrow>
                          (case skip_ws r3 of
                             [] \<Rightarrow> None
                           | d # r4 \<Rightarrow>
                               (if d = CHR ''}'' then Some ([(k, v)], r4)
                                else if d = CHR '','' then
                                  map_option (apfst ((#) (k, v))) (parse_members n (skip_ws r4))
                                else None)))
                   else None)))
      else None)"

definition json_loads :: "string \<Rightarrow> pyval option" where
  "json_loads s =
     (case parse_value (2 * length s + 1) (skip_ws s) of
        None \<Rightarrow> None
      | Some (v, r) \<Rightarrow> (if skip_ws r = [] then Some v else None))"

text \<open>The keys of a dictionary, in order.\<close>

fun keys :: "pyval \<Rightarrow> string list" where
  "keys (PDict kvs) = map fst kvs"
| "keys _ = []"

text \<open>The recursion depth that reading a value back needs.\<close>

fun weight :: "pyval \<Rightarrow> nat"
  and weight_list :: "pyval list \<Rightarrow> nat"
  and weight_dict :: "(string \<times> pyval) list \<Rightarrow> nat"
where
  "weight (PList xs) = Suc (weight_list xs)"
| "weight (PDict kvs) = Suc (weight_dict kvs)"
| "weight _ = 1"
| "weight_list [] = 0"
| "weight_list (x # xs) = Suc (weight x + weight_list xs)"
| "weight_dict [] = 0"
| "weight_dict ((k, v) # kvs) = Suc (weight v + weight_dict kvs)"

text \<open>
  What may follow a number: no further digit, and no fraction or exponent.
\<close>

definition number_end :: "string \<Rightarrow> bool" where
  "number_end s = (takeWhile is_digit s = [] \<and> \<not> starts_fraction s)"

text \<open>The characters a value's text can start with are not whitespace and not a closing
  bracket, closing brace or comma.\<close>

definition opens_value :: "char \<Rightarrow> bool" where
  "opens_value c = (\<not> is_ws c \<and> c \<noteq> CHR '']'' \<and> c \<noteq> CHR ''}'' \<and> c \<noteq> CHR '','')"

section \<open>Properties\<close>

subsection \<open>Decimal digits\<close>

lemma less_10_cases:
  "(d::nat) < 10 \<Longrightarrow>
     d = 0 \<or> d = 1 \<or> d = 2 \<or> d = 3 \<or> d = 4 \<or> d = 5 \<or> d = 6 \<or> d = 7 \<or> d = 8 \<or> d = 9"
  by arith

lemma of_char_digit_char: "d < 10 \<Longrightarrow> (of_char (digit_char d) :: nat) = 48 + d"
  by (drule less_10_cases) (auto simp: digit_char_def)

lemma is_digit_digit_char: "d < 10 \<Longrightarrow> is_digit (digit_char d)"
  by (simp add: is_digit_def of_char_digit_char)

lemma digits_value_snoc: "digits_value (ds @ [c]) = 10 * digits_value ds + (of_char c - 48)"
  by (simp add: digits_value_def)

lemma digits_value_str_nat: "digits_value (str_nat n) = n"
proof (induction n rule: str_nat.induct)
  case (1 n)
  show ?case
  proof (cases "n < 10")
    case True
    then show ?thesis
      by (subst str_nat.simps) (simp add: digits_value_def of_char_digit_char)
  next
    case False
    with 1 have "digits_value (str_nat (n div 10)) = n div 10" by simp
    with False show ?thesis
      by (subst str_nat.simps) (simp add: digits_value_snoc of_char_digit_char)
  qed
qed

lemma str_nat_digits: "list_all is_digit (str_nat n)"
proof (induction n rule: str_nat.induct)
  case (1 n)
  show ?case
  proof (cases "n < 10")
    case True
    then show ?thesis by (subst str_nat.simps) (simp add: is_digit_digit_char)
  next
    case False
    with 1 have "list_all is_digit (str_nat (n div 10))" by simp
    with False show ?thesis
      by (subst str_nat.simps) (simp add: is_digit_digit_char)
  qed
qed

lemma str_nat_nonempty: "str_nat n \<noteq> []"
  by (subst str_nat.simps) simp

lemma str_nat_inject: "(str_nat m = str_nat n) = (m = n)"
  by (metis digits_value_str_nat)

lemma str_nat_no_minus: "str_nat n \<noteq> CHR ''-'' # ds"
proof
  assume "str_nat n = CHR ''-'' # ds"
  with str_nat_digits [of n] have "is_digit CHR ''-''" by simp
  then show False by (simp add: is_digit_def)
qed

lemma str_int_inject: "(str_int i = str_int j) = (i = j)"
  using str_nat_no_minus [of "nat i"] str_nat_no_minus [of "nat j"]
  by (auto simp: str_int_def str_nat_inject dest: sym)

lemma str_int_default_ports: "str_int 8000 = ''8000''" "str_int 3002 = ''3002''"
  by (simp_all add: str_int_def str_nat.simps digit_char_def)

subsection \<open>The getters\<close>

text \<open>
  C9: for all values of the constants, \<open>get_project_info()\<close> returns a dictionary whose
  \<open>name\<close>, \<open>display_name\<close> and \<open>type\<close> fields are the constants \<open>PROJECT_NAME\<close>,
  \<open>DISPLAY_NAME\<close> and \<open>PROJECT_TYPE\<close>, beside four fixed fields; with the default
  constants its \<open>name\<close> is \<open>manosaba_ai\<close> and its \<open>type\<close> is \<open>nextjs\<close>.
\<close>

theorem get_project_info_fields:
  "get_project_info c = PDict
     [(''name'', PStr (PROJECT_NAME c)),
      (''display_name'', PStr (DISPLAY_NAME c)),
      (''version'', PStr ''1.0.0''),
      (''description'', PStr description_text),
      (''type'', PStr (PROJECT_TYPE c)),
      (''author'', PStr ''Manosaba Team''),
      (''license'', PStr ''MIT'')]
   \<and> getitem (get_project_info c) ''name'' = Inr (PStr (PROJECT_NAME c))
   \<and> getitem (get_project_info c) ''display_name'' = Inr (PStr (DISPLAY_NAME c))
   \<and> getitem (get_project_info c) ''type'' = Inr (PStr (PROJECT_TYPE c))
   \<and> getitem (get_project_info default_constants) ''name'' = Inr (PStr ''manosaba_ai'')
   \<and> getitem (get_project_info default_constants) ''type'' = Inr (PStr ''nextjs'')"
  by (simp add: get_project_info_def default_constants_def)

text \<open>
  C10: the \<open>port\<close> field of \<open>get_runtime_config()\<close> is \<open>FRONTEND_PORT\<close>, and the result
  does not change with \<open>BACKEND_PORT\<close> or \<open>WEBSOCKET_PORT\<close>; the install, dev and build
  command fields are the constants \<open>INSTALL_COMMAND\<close>, \<open>DEV_COMMAND\<close> and
  \<open>BUILD_COMMAND\<close>; the test and lint command fields are the literals \<open>pnpm test\<close> and
  \<open>pnpm run lint\<close>.
\<close>

theorem get_runtime_config_fields:
  "getitem (get_runtime_config c) ''port'' = Inr (PInt (FRONTEND_PORT c))
   \<and> getitem (get_runtime_config c) ''install_command'' = Inr (PStr (INSTALL_COMMAND c))
   \<and> getitem (get_runtime_config c) ''dev_command'' = Inr (PStr (DEV_COMMAND c))
   \<and> getitem (get_runtime_config c) ''build_command'' = Inr (PStr (BUILD_COMMAND c))
   \<and> getitem (get_runtime_config c) ''test_command'' = Inr (PStr ''pnpm test'')
   \<and> getitem (get_runtime_config c) ''lint_command'' = Inr (PStr ''pnpm run lint'')
   \<and> get_runtime_config (c\<lparr>BACKEND_PORT := b, WEBSOCKET_PORT := w\<rparr>) = get_runtime_config c"
  by (simp add: get_runtime_config_def)

text \<open>
  C3: for every integer \<open>BACKEND_PORT\<close>, the \<open>api_endpoint\<close> field of \<open>get_api_config()\<close>
  is the template \<open>http://localhost:{BACKEND_PORT}/api/v1\<close> with the decimal text of
  \<open>BACKEND_PORT\<close> filled in; after \<open>BACKEND_PORT\<close> is set to \<open>p\<close> the field is the same
  string exactly when \<open>p\<close> is the old value. With the default port it reads
  \<open>http://localhost:8000/api/v1\<close>.
\<close>

theorem api_endpoint_derivation:
  "getitem (get_api_config c) ''api_endpoint'' =
     Inr (PStr (interpolate ''http://localhost:{BACKEND_PORT}/api/v1''
                  (\<lambda>name. if name = ''BACKEND_PORT'' then str_int (BACKEND_PORT c) else [])))
   \<and> getitem (get_api_config c) ''api_endpoint'' =
     Inr (PStr (''http://localhost:'' @ str_int (BACKEND_PORT c) @ ''/api/v1''))
   \<and> (getitem (get_api_config (c\<lparr>BACKEND_PORT := p\<rparr>)) ''api_endpoint'' =
      getitem (get_api_config c) ''api_endpoint'') = (p = BACKEND_PORT c)
   \<and> getitem (get_api_config default_constants) ''api_endpoint'' =
     Inr (PStr ''http://localhost:8000/api/v1'')"
  by (simp add: get_api_config_def interpolate_def str_int_inject default_constants_def
      str_int_default_ports)

text \<open>
  C6: the \<open>websocket_url\<close> field of \<open>get_api_config()\<close> and the \<open>NEXT_PUBLIC_WS_URL\<close>
  field of the development profile are built from \<open>WEBSOCKET_PORT\<close>: they stay the same
  when only \<open>BACKEND_PORT\<close> is changed, and they change whenever \<open>WEBSOCKET_PORT\<close>
  does. In the default configuration both ports are 8000.
\<close>

theorem websocket_port_independent:
  "getitem (get_api_config c) ''websocket_url'' =
     Inr (PStr (''ws://localhost:'' @ str_int (WEBSOCKET_PORT c) @ ''/ws''))
   \<and> getitem2 (get_env_config c) ''development'' ''NEXT_PUBLIC_WS_URL'' =
     Inr (PStr (''ws://localhost:'' @ str_int (WEBSOCKET_PORT c) @ ''/ws''))
   \<and> getitem (get_api_config (c\<lparr>BACKEND_PORT := p\<rparr>)) ''websocket_url'' =
     getitem (get_api_config c) ''websocket_url''
   \<and> getitem2 (get_env_config (c\<lparr>BACKEND_PORT := p\<rparr>)) ''development'' ''NEXT_PUBLIC_WS_URL'' =
     getitem2 (get_env_config c) ''development'' ''NEXT_PUBLIC_WS_URL''
   \<and> (getitem (get_api_config (c\<lparr>WEBSOCKET_PORT := w\<rparr>)) ''websocket_url'' =
      getitem (get_api_config c) ''websocket_url'') = (w = WEBSOCKET_PORT c)
   \<and> (getitem2 (get_env_config (c\<lparr>WEBSOCKET_PORT := w\<rparr>)) ''development'' ''NEXT_PUBLIC_WS_URL'' =
      getitem2 (get_env_config c) ''development'' ''NEXT_PUBLIC_WS_URL'') = (w = WEBSOCKET_PORT c)
   \<and> BACKEND_PORT default_constants = 8000 \<and> WEBSOCKET_PORT default_constants = 8000"
  by (simp add: get_api_config_def get_env_config_def getitem2_def str_int_inject
      default_constants_def)

text \<open>
  C2: the production profile of \<open>get_env_config()\<close> is one fixed dictionary, the same
  for all values of the constants, so for all values of \<open>FRONTEND_PORT\<close> and
  \<open>BACKEND_PORT\<close>; the development profiles of two configurations are equal exactly when
  the two agree on \<open>BACKEND_PORT\<close> and on \<open>WEBSOCKET_PORT\<close>, its \<open>NEXT_PUBLIC_API_URL\<close>
  following \<open>BACKEND_PORT\<close> and its \<open>NEXT_PUBLIC_WS_URL\<close> following \<open>WEBSOCKET_PORT\<close>.
\<close>

theorem env_config_asymmetry:
  "getitem (get_env_config c) ''production'' =
     Inr (PDict [(''NODE_ENV'', PStr ''production''),
                 (''NEXT_PUBLIC_API_URL'', PStr ''https://api.manosaba.com''),
                 (''NEXT_PUBLIC_WS_URL'', PStr ''wss://api.manosaba.com/ws'')])
   \<and> getitem (get_env_config c) ''production'' = getitem (get_env_config c') ''production''
   \<and> (getitem (get_env_config c) ''development'' = getitem (get_env_config c') ''development'')
     = (BACKEND_PORT c = BACKEND_PORT c' \<and> WEBSOCKET_PORT c = WEBSOCKET_PORT c')
   \<and> (getitem2 (get_env_config c) ''development'' ''NEXT_PUBLIC_API_URL'' =
      getitem2 (get_env_config c') ''development'' ''NEXT_PUBLIC_API_URL'')
     = (BACKEND_PORT c = BACKEND_PORT c')
   \<and> (getitem2 (get_env_config c) ''development'' ''NEXT_PUBLIC_WS_URL'' =
      getitem2 (get_env_config c') ''development'' ''NEXT_PUBLIC_WS_URL'')
     = (WEBSOCKET_PORT c = WEBSOCKET_PORT c')"
  by (simp add: get_env_config_def getitem2_def str_int_inject)

subsection \<open>install\<close>

lemma install_unfold:
  "install c env out =
     (let argv = split (INSTALL_COMMAND c);
          out1 = out @ [msg_installing @ DISPLAY_NAME c @ ''...'']
      in if argv = [] then (Inl IndexError, out1)
         else case run_child env argv (getcwd env) of
                LaunchFailed \<Rightarrow> (Inl OSError, out1)
              | Exited rc \<Rightarrow>
                  (if rc = 0 then (Inr True, out1 @ [msg_done])
                   else (Inr False,
                         out1 @ [msg_failed @ exception_text env (CalledProcessError rc argv)])))"
  by (simp add: install_def subprocess_run_def Let_def split: child_outcome.splits)

lemma split_default_install: "split ''pnpm install'' = [''pnpm'', ''install'']"
  by (simp add: split_def ascii_space_def)

text \<open>
  Where the install command is launched, the exit status decides: \<open>install()\<close> returns
  \<open>True\<close> exactly when the child exits with status zero, and has then printed the
  completion message; it returns \<open>False\<close> exactly when the child exits with a non-zero
  status, and has then printed the failure message with the text of the error raised
  for that very status and command.
\<close>

lemma install_exit_status:
  "(let argv = split (INSTALL_COMMAND c);
        outcome = run_child env argv (getcwd env);
        started = out @ [msg_installing @ DISPLAY_NAME c @ ''...'']
    in (fst (install c env out) = Inr True) = (argv \<noteq> [] \<and> outcome = Exited 0)
     \<and> (fst (install c env out) = Inr True) = (install c env out = (Inr True, started @ [msg_done]))
     \<and> (fst (install c env out) = Inr False) =
         (argv \<noteq> [] \<and> (\<exists>rc. rc \<noteq> 0 \<and> outcome = Exited rc))
     \<and> (fst (install c env out) = Inr False) =
         (\<exists>rc. rc \<noteq> 0 \<and> outcome = Exited rc \<and>
               install c env out =
                 (Inr False,
                  started @ [msg_failed @ exception_text env (CalledProcessError rc argv)])))"
  by (auto simp: install_unfold Let_def split: child_outcome.splits)

text \<open>
  C1: \<open>install()\<close> is to return \<open>False\<close> after printing a failure message also when the
  install command cannot be launched, and never to let an exception reach its caller.
  The code does not: with the default constants and no \<open>pnpm\<close> to launch, the launcher's
  error leaves \<open>install()\<close>; no failure message is printed and nothing is returned. Only
  the line announcing the installation has been written.
\<close>

theorem install_launch_failure_propagates:
  "install default_constants unlaunchable_env [] =
     (Inl OSError, [msg_installing @ ''Manosaba AI...''])
   \<and> fst (install default_constants unlaunchable_env []) \<noteq> Inr False"
  by (simp add: install_unfold Let_def default_constants_def unlaunchable_env_def
      split_default_install)

subsection \<open>The facade as a whole\<close>

lemma invoke_getter:
  "invoke c env GetProjectInfo out = (Inr (get_project_info c), out)"
  "invoke c env GetRuntimeConfig out = (Inr (get_runtime_config c), out)"
  "invoke c env GetDependencies out = (Inr (get_dependencies c), out)"
  "invoke c env GetApiConfig out = (Inr (get_api_config c), out)"
  "invoke c env GetEnvConfig out = (Inr (get_env_config c), out)"
  by (simp_all add: invoke_def)

lemma getters_are_dicts:
  "get_project_info c \<noteq> PBool False" "get_runtime_config c \<noteq> PBool False"
  "get_dependencies c \<noteq> PBool False" "get_api_config c \<noteq> PBool False"
  "get_env_config c \<noteq> PBool False"
  by (simp_all add: get_project_info_def get_runtime_config_def get_dependencies_def
      get_api_config_def get_env_config_def)

lemma install_can_fail:
  "invoke default_constants failing_env Install [] =
     (Inr (PBool False),
      [msg_installing @ ''Manosaba AI...'',
       msg_failed @ exception_text failing_env (CalledProcessError 1 [''pnpm'', ''install''])])"
  by (simp add: invoke_def install_unfold Let_def default_constants_def failing_env_def
      split_default_install)

text \<open>
  C4: an operation of the facade returns a value, without raising and without writing
  to standard output, for all constants and in every environment, exactly when it is
  one of the five getters; and there are constants and an environment in which an
  operation fails exactly when the operation is \<open>install\<close>.
\<close>

theorem only_install_can_fail:
  "(\<forall>c env out. \<exists>v. invoke c env op out = (Inr v, out) \<and> \<not> failed (Inr v)) = (op \<noteq> Install)
   \<and> (\<exists>c env out. failed (fst (invoke c env op out))) = (op = Install)"
proof (cases op)
  case Install
  have "invoke default_constants failing_env Install [] \<noteq> (Inr v, [])" for v
    by (simp add: install_can_fail)
  moreover have "failed (fst (invoke default_constants failing_env Install []))"
    by (simp add: install_can_fail failed_def)
  ultimately show ?thesis using Install by blast
qed (simp_all add: invoke_getter failed_def getters_are_dicts)

text \<open>
  C5: calling a getter twice in a row with the same constants returns two equal values
  and leaves standard output as it was, and the JSON texts of the two values are the
  same byte sequence.
\<close>

theorem getters_idempotent:
  assumes "op \<noteq> Install"
  shows "\<exists>v1 v2. call_twice c env op out = (Inr v1, Inr v2, out)
           \<and> v1 = v2 \<and> json_dumps v1 = json_dumps v2"
  using assms by (cases op) (simp_all add: call_twice_def invoke_getter)

theorem getters_idempotent_witness:
  "GetApiConfig \<noteq> Install \<and>
   (\<exists>v1 v2. call_twice default_constants failing_env GetApiConfig [] = (Inr v1, Inr v2, [])
           \<and> v1 = v2 \<and> json_dumps v1 = json_dumps v2)"
  using getters_idempotent [of GetApiConfig default_constants failing_env "[]"] by simp

subsection \<open>The command line\<close>

lemma print_info_lines:
  "print_info c env out =
     (Inr (), out @ [label_project @ DISPLAY_NAME c @ '' ('' @ PROJECT_NAME c @ '')'',
                     label_type @ PROJECT_TYPE c,
                     label_port @ str_int (FRONTEND_PORT c)])"
  by (simp add: print_info_def get_project_info_def format_value_def)

text \<open>
  C8: the flags are tried in the order \<open>--get-config\<close>, \<open>--install\<close>, \<open>--info\<close> and the
  first one set decides alone what the program does, whatever the later flags are;
  with none of the three set the program prints the help text and ends normally.
\<close>

theorem main_first_match_wins:
  "main c env \<lparr>arg_get_config = True, arg_install = i, arg_info = f\<rparr> out =
     (Inr (), out @ [json_dumps (config_document c)])
   \<and> main c env \<lparr>arg_get_config = False, arg_install = True, arg_info = f\<rparr> out =
     (case fst (install c env out) of Inl e \<Rightarrow> Inl e | Inr b \<Rightarrow> Inr (), snd (install c env out))
   \<and> main c env \<lparr>arg_get_config = False, arg_install = False, arg_info = True\<rparr> out =
     (Inr (), out @ [label_project @ DISPLAY_NAME c @ '' ('' @ PROJECT_NAME c @ '')'',
                     label_type @ PROJECT_TYPE c,
                     label_port @ str_int (FRONTEND_PORT c)])
   \<and> main c env \<lparr>arg_get_config = False, arg_install = False, arg_info = False\<rparr> out =
     (Inr (), out @ [help_text env])"
  by (simp add: main_def print_info_lines split: prod.splits sum.splits)

subsection \<open>Reading back what \<open>json.dumps\<close> wrote\<close>

lemma less_16_cases:
  "(d::nat) < 16 \<Longrightarrow>
     d = 0 \<or> d = 1 \<or> d = 2 \<or> d = 3 \<or> d = 4 \<or> d = 5 \<or> d = 6 \<or> d = 7 \<or> d = 8 \<or> d = 9
     \<or> d = 10 \<or> d = 11 \<or> d = 12 \<or> d = 13 \<or> d = 14 \<or> d = 15"
  by arith

lemma hex_value_hex_char: "d < 16 \<Longrightarrow> hex_value (hex_char d) = Some d"
  by (drule less_16_cases) (auto simp: hex_value_def hex_char_def)

lemma hex_char_not_quote: "d < 16 \<Longrightarrow> hex_char d \<noteq> CHR 0x22"
  by (drule less_16_cases) (auto simp: hex_char_def)

lemma unicode_escape_control:
  assumes "(of_char c :: nat) < 32"
  shows "unicode_escape CHR ''0'' CHR ''0'' (hex_char (of_char c div 16)) (hex_char (of_char c mod 16))
           = Some c"
proof -
  have "(of_char c :: nat) div 16 < 16" using assms by simp
  moreover have "(of_char c :: nat) mod 16 < 16" by simp
  moreover have "hex_value CHR ''0'' = Some 0" by (simp add: hex_value_def)
  ultimately show ?thesis using assms
    by (simp add: unicode_escape_def hex_value_hex_char)
qed

lemma scan_string_escape_char:
  assumes "scan_string X = Some (s, rest)"
  shows "scan_string (escape_char c @ X) = Some (c # s, rest)"
proof (cases "(of_char c :: nat) < 32")
  case True
  then show ?thesis
    using assms unicode_escape_control [OF True]
    by (auto simp: escape_char_def simple_escape_def)
next
  case False
  then show ?thesis using assms
    by (auto simp: escape_char_def simple_escape_def)
qed

lemma scan_string_escaped:
  "scan_string (concat (map escape_char s) @ CHR 0x22 # rest) = Some (s, rest)"
  by (induction s) (simp_all add: scan_string_escape_char)

lemma str_nat_small: "n < 10 \<Longrightarrow> str_nat n = [digit_char n]"
  by (subst str_nat.simps) simp

lemma digit_char_not_zero: "0 < d \<Longrightarrow> d < 10 \<Longrightarrow> digit_char d \<noteq> CHR ''0''"
  by (drule less_10_cases) (auto simp: digit_char_def)

lemma str_nat_no_leading_zero: "10 \<le> n \<Longrightarrow> hd (str_nat n) \<noteq> CHR ''0''"
proof (induction n rule: str_nat.induct)
  case (1 n)
  from "1.prems" have unfold: "str_nat n = str_nat (n div 10) @ [digit_char (n mod 10)]"
    by (subst str_nat.simps) simp
  show ?case
  proof (cases "n div 10 < 10")
    case True
    moreover from "1.prems" have "0 < n div 10" by simp
    ultimately show ?thesis
      by (simp add: unfold str_nat_small digit_char_not_zero)
  next
    case False
    with 1 have "hd (str_nat (n div 10)) \<noteq> CHR ''0''" by simp
    then show ?thesis by (simp add: unfold str_nat_nonempty)
  qed
qed

lemma str_nat_length_one: "n < 10 \<Longrightarrow> length (str_nat n) = 1"
  by (simp add: str_nat_small)

lemma scan_digits_str_nat:
  assumes "number_end rest"
  shows "scan_digits (str_nat n @ rest) = Some (n, rest)"
proof -
  have all: "\<forall>c \<in> set (str_nat n). is_digit c"
    using str_nat_digits [of n] by (simp add: list_all_iff)
  from assms have tw: "takeWhile is_digit rest = []" and nf: "\<not> starts_fraction rest"
    by (simp_all add: number_end_def)
  from tw have dw: "dropWhile is_digit rest = rest"
    by (metis takeWhile_dropWhile_id append_Nil)
  have t: "takeWhile is_digit (str_nat n @ rest) = str_nat n"
    using all tw by (simp add: takeWhile_append2)
  have d: "dropWhile is_digit (str_nat n @ rest) = rest"
    using all dw by (simp add: dropWhile_append2)
  have lead: "\<not> (hd (str_nat n) = CHR ''0'' \<and> 1 < length (str_nat n))"
    using str_nat_no_leading_zero [of n] str_nat_length_one [of n] by (cases "n < 10") auto
  show ?thesis
    using lead nf by (simp add: scan_digits_def t d Let_def str_nat_nonempty digits_value_str_nat)
qed

lemma str_nat_first: "\<exists>c cs. str_nat n = c # cs \<and> is_digit c"
  using str_nat_digits [of n] str_nat_nonempty [of n] by (cases "str_nat n") auto

lemma scan_number_str_int:
  assumes "number_end rest"
  shows "scan_number (str_int i @ rest) = Some (i, rest)"
proof (cases "i < 0")
  case True
  then show ?thesis
    by (simp add: scan_number_def str_int_def scan_digits_str_nat [OF assms])
next
  case False
  obtain c cs where c: "str_nat (nat i) = c # cs" "is_digit c"
    using str_nat_first by blast
  then have "c \<noteq> CHR ''-''" by (auto simp: is_digit_def)
  moreover have "scan_digits (c # cs @ rest) = Some (nat i, rest)"
    using scan_digits_str_nat [OF assms, of "nat i"] c by simp
  ultimately show ?thesis using False c
    by (simp add: scan_number_def str_int_def)
qed

lemma is_ws_simps [simp]:
  "is_ws CHR '' ''" "is_ws CHR 0x0A" "\<not> is_ws CHR 0x22" "\<not> is_ws CHR ''[''" "\<not> is_ws CHR ''{''"
  "\<not> is_ws CHR '']''" "\<not> is_ws CHR ''}''" "\<not> is_ws CHR '',''" "\<not> is_ws CHR ''t''"
  "\<not> is_ws CHR ''f''" "\<not> is_ws CHR ''n''" "\<not> is_ws CHR ''-''" "\<not> is_ws CHR '':''"
  by (simp_all add: is_ws_def)

lemma is_digit_not_ws: "is_digit c \<Longrightarrow> \<not> is_ws c"
  by (auto simp: is_digit_def is_ws_def)

lemma skip_ws_Cons: "\<not> is_ws c \<Longrightarrow> skip_ws (c # s) = c # s"
  by (simp add: skip_ws_def)

lemma skip_ws_space: "skip_ws (replicate k CHR '' '' @ s) = skip_ws s"
  by (induction k) (simp_all add: skip_ws_def)

lemma skip_ws_newline_indent: "skip_ws (newline_indent k @ s) = skip_ws s"
  using skip_ws_space [of "2 * k" s] by (simp add: newline_indent_def skip_ws_def)

lemma number_end_simps [simp]:
  "number_end []" "number_end (CHR '','' # s)" "number_end (CHR '']'' # s)"
  "number_end (CHR ''}'' # s)" "number_end (newline_indent k @ s)"
  by (simp_all add: number_end_def starts_fraction_def is_digit_def newline_indent_def)



lemma str_int_first: "\<exists>c cs. str_int i = c # cs \<and> (is_digit c \<or> c = CHR ''-'')"
  using str_nat_first [of "nat i"] by (auto simp: str_int_def)

lemma iterencode_first: "\<exists>c cs. iterencode level v = c # cs \<and> opens_value c"
proof (cases v)
  case (PInt i)
  obtain c cs where "str_int i = c # cs" "is_digit c \<or> c = CHR ''-''"
    using str_int_first by blast
  then show ?thesis using PInt
    by (auto simp: opens_value_def is_digit_def is_ws_def)
qed (auto simp: opens_value_def encode_basestring_def)

lemma skip_ws_iterencode: "skip_ws (iterencode level v @ s) = iterencode level v @ s"
  using iterencode_first [of level v] by (auto simp: opens_value_def skip_ws_Cons)

lemma iterencode_dict_first:
  "kvs \<noteq> [] \<Longrightarrow> \<exists>cs. iterencode_dict level kvs = CHR 0x22 # cs"
proof (cases kvs)
  case (Cons kv rest)
  then show ?thesis
    by (cases kv; cases rest) (auto simp: encode_basestring_def)
qed simp

lemma iterencode_list_first:
  "xs \<noteq> [] \<Longrightarrow> \<exists>c cs. iterencode_list level xs = c # cs \<and> opens_value c"
proof (cases xs)
  case (Cons x rest)
  then show ?thesis
    using iterencode_first [of level x] by (cases rest) auto
qed simp

lemma parse_value_PStr:
  "parse_value (Suc n) (iterencode level (PStr s) @ rest) = Some (PStr s, rest)"
  by (simp add: encode_basestring_def scan_string_escaped)

lemma parse_value_PBool:
  "parse_value (Suc n) (iterencode level (PBool b) @ rest) = Some (PBool b, rest)"
  by simp

lemma parse_value_PNone:
  "parse_value (Suc n) (iterencode level PNone @ rest) = Some (PNone, rest)"
  by simp

lemma parse_value_PInt:
  assumes "number_end rest"
  shows "parse_value (Suc n) (iterencode level (PInt i) @ rest) = Some (PInt i, rest)"
proof -
  obtain c cs where c: "str_int i = c # cs" "is_digit c \<or> c = CHR ''-''"
    using str_int_first by blast
  have "scan_number (c # cs @ rest) = Some (i, rest)"
    using scan_number_str_int [OF assms, of i] c by simp
  moreover from c(2) have "c \<noteq> CHR 0x22" "c \<noteq> CHR ''[''" "c \<noteq> CHR ''{''"
    "c \<noteq> CHR ''t''" "c \<noteq> CHR ''f''" "c \<noteq> CHR ''n''"
    by (auto simp: is_digit_def)
  ultimately show ?thesis using c(1) by simp
qed

lemma parse_value_empty_containers:
  "parse_value (Suc n) (iterencode level (PList []) @ rest) = Some (PList [], rest)"
  "parse_value (Suc n) (iterencode level (PDict []) @ rest) = Some (PDict [], rest)"
  by (simp_all add: skip_ws_Cons)

lemma parse_value_PList:
  assumes "xs \<noteq> []"
    and "parse_elements n (iterencode_list (level + 1) xs @ newline_indent level @ CHR '']'' # rest)
           = Some (xs, rest)"
  shows "parse_value (Suc n) (iterencode level (PList xs) @ rest) = Some (PList xs, rest)"
proof -
  obtain c cs where c: "iterencode_list (level + 1) xs = c # cs" "opens_value c"
    using iterencode_list_first [OF assms(1)] by blast
  then have "skip_ws (newline_indent (level + 1) @ c # cs @ newline_indent level @ CHR '']'' # rest)
               = c # cs @ newline_indent level @ CHR '']'' # rest"
    by (simp add: skip_ws_newline_indent skip_ws_Cons opens_value_def)
  then show ?thesis using assms c
    by (simp add: opens_value_def)
qed

lemma parse_value_PDict:
  assumes "kvs \<noteq> []"
    and "parse_members n (iterencode_dict (level + 1) kvs @ newline_indent level @ CHR ''}'' # rest)
           = Some (kvs, rest)"
  shows "parse_value (Suc n) (iterencode level (PDict kvs) @ rest) = Some (PDict kvs, rest)"
proof -
  obtain cs where c: "iterencode_dict (level + 1) kvs = CHR 0x22 # cs"
    using iterencode_dict_first [OF assms(1)] by blast
  then have "skip_ws (newline_indent (level + 1) @ CHR 0x22 # cs @ newline_indent level @ CHR ''}'' # rest)
               = CHR 0x22 # cs @ newline_indent level @ CHR ''}'' # rest"
    by (simp add: skip_ws_newline_indent skip_ws_Cons)
  then show ?thesis using assms c
    by simp
qed

lemma parse_elements_last:
  assumes "parse_value n (iterencode level x @ newline_indent k @ CHR '']'' # rest)
             = Some (x, newline_indent k @ CHR '']'' # rest)"
  shows "parse_elements (Suc n) (iterencode_list level [x] @ newline_indent k @ CHR '']'' # rest)
           = Some ([x], rest)"
  using assms by (simp add: skip_ws_newline_indent skip_ws_Cons)

lemma parse_elements_more:
  assumes "parse_value n (iterencode level x @ CHR '','' # newline_indent level @ Y)
             = Some (x, CHR '','' # newline_indent level @ Y)"
    and "Y = iterencode_list level (y # ys) @ Z"
    and "parse_elements n Y = Some (y # ys, rest)"
  shows "parse_elements (Suc n) (iterencode_list level (x # y # ys) @ Z) = Some (x # y # ys, rest)"
proof -
  obtain c cs where c: "iterencode_list level (y # ys) = c # cs" "opens_value c"
    using iterencode_list_first [of "y # ys" level] by blast
  then have "skip_ws (newline_indent level @ Y) = Y"
    using assms(2) by (simp add: skip_ws_newline_indent skip_ws_Cons opens_value_def)
  then show ?thesis using assms
    by (simp add: skip_ws_Cons)
qed

lemma skip_ws_blank: "skip_ws (CHR '' '' # s) = skip_ws s"
  by (simp add: skip_ws_def)

lemma parse_members_last:
  assumes "parse_value n (iterencode level v @ newline_indent j @ CHR ''}'' # rest)
             = Some (v, newline_indent j @ CHR ''}'' # rest)"
  shows "parse_members (Suc n) (iterencode_dict level [(k, v)] @ newline_indent j @ CHR ''}'' # rest)
           = Some ([(k, v)], rest)"
  using assms
  by (simp add: encode_basestring_def scan_string_escaped skip_ws_Cons skip_ws_iterencode
      skip_ws_newline_indent skip_ws_blank)

lemma parse_members_more:
  assumes "parse_value n (iterencode level v @ CHR '','' # newline_indent level @ Y)
             = Some (v, CHR '','' # newline_indent level @ Y)"
    and "Y = iterencode_dict level (kv # kvs) @ Z"
    and "parse_members n Y = Some (kv # kvs, rest)"
  shows "parse_members (Suc n) (iterencode_dict level ((k, v) # kv # kvs) @ Z)
           = Some ((k, v) # kv # kvs, rest)"
proof -
  obtain cs where c: "iterencode_dict level (kv # kvs) = CHR 0x22 # cs"
    using iterencode_dict_first [of "kv # kvs" level] by blast
  then have "skip_ws (newline_indent level @ Y) = Y"
    using assms(2) by (simp add: skip_ws_newline_indent skip_ws_Cons)
  then show ?thesis using assms
    by (simp add: encode_basestring_def scan_string_escaped skip_ws_Cons skip_ws_iterencode
        skip_ws_blank)
qed

lemma weight_pos: "0 < weight v"
  by (cases v) simp_all

lemma parse_iterencode:
  shows "weight v \<le> n \<Longrightarrow> number_end rest \<Longrightarrow>
           parse_value n (iterencode level v @ rest) = Some (v, rest)"
    and "xs \<noteq> [] \<Longrightarrow> weight_list xs \<le> n \<Longrightarrow>
           parse_elements n (iterencode_list level xs @ newline_indent k @ CHR '']'' # rest)
             = Some (xs, rest)"
    and "kvs \<noteq> [] \<Longrightarrow> weight_dict kvs \<le> n \<Longrightarrow>
           parse_members n (iterencode_dict level kvs @ newline_indent k @ CHR ''}'' # rest)
             = Some (kvs, rest)"
proof (induction level v and level xs and level kvs
    arbitrary: n rest and n k rest and n k rest
    rule: iterencode_iterencode_list_iterencode_dict.induct)
  case (1 level s)
  then obtain m where "n = Suc m" by (cases n) auto
  then show ?case by (simp only: parse_value_PStr)
next
  case (2 level i)
  then obtain m where "n = Suc m" by (cases n) auto
  with 2 show ?case by (simp only: parse_value_PInt)
next
  case (3 level b)
  then obtain m where "n = Suc m" by (cases n) auto
  then show ?case by (simp only: parse_value_PBool)
next
  case (4 level)
  then obtain m where "n = Suc m" by (cases n) auto
  then show ?case by (simp only: parse_value_PNone)
next
  case (5 level xs)
  from "5.prems" obtain m where n: "n = Suc m" "weight_list xs \<le> m" by (cases n) auto
  show ?case
  proof (cases "xs = []")
    case True
    then show ?thesis using n by (simp only: parse_value_empty_containers)
  next
    case False
    with 5 n have "parse_elements m
        (iterencode_list (level + 1) xs @ newline_indent level @ CHR '']'' # rest) = Some (xs, rest)"
      by blast
    with False show ?thesis unfolding n(1) by (rule parse_value_PList)
  qed
next
  case (6 level kvs)
  from "6.prems" obtain m where n: "n = Suc m" "weight_dict kvs \<le> m" by (cases n) auto
  show ?case
  proof (cases "kvs = []")
    case True
    then show ?thesis using n by (simp only: parse_value_empty_containers)
  next
    case False
    with 6 n have "parse_members m
        (iterencode_dict (level + 1) kvs @ newline_indent level @ CHR ''}'' # rest) = Some (kvs, rest)"
      by blast
    with False show ?thesis unfolding n(1) by (rule parse_value_PDict)
  qed
next
  case (7 level)
  then show ?case by simp
next
  case (8 level x)
  from "8.prems" obtain m where n: "n = Suc m" "weight x \<le> m" by (cases n) auto
  have "parse_value m (iterencode level x @ newline_indent k @ CHR '']'' # rest)
          = Some (x, newline_indent k @ CHR '']'' # rest)"
    using "8.IH" n(2) by simp
  then show ?case unfolding n(1) by (rule parse_elements_last)
next
  case (9 level x y ys)
  from "9.prems" obtain m where n: "n = Suc m" "weight x \<le> m" "weight_list (y # ys) \<le> m"
    by (cases n) auto
  let ?Z = "newline_indent k @ CHR '']'' # rest"
  let ?Y = "iterencode_list level (y # ys) @ ?Z"
  have a: "parse_value m (iterencode level x @ CHR '','' # newline_indent level @ ?Y)
          = Some (x, CHR '','' # newline_indent level @ ?Y)"
    using "9.IH"(1) n(2) by simp
  have b: "parse_elements m ?Y = Some (y # ys, rest)"
    using "9.IH"(2) n(3) by simp
  show ?case unfolding n(1) using a _ b by (rule parse_elements_more) simp
next
  case (10 level)
  then show ?case by simp
next
  case (11 level key v)
  from "11.prems" obtain m where n: "n = Suc m" "weight v \<le> m" by (cases n) auto
  have "parse_value m (iterencode level v @ newline_indent k @ CHR ''}'' # rest)
          = Some (v, newline_indent k @ CHR ''}'' # rest)"
    using "11.IH" n(2) by simp
  then show ?case unfolding n(1) by (rule parse_members_last)
next
  case (12 level key v kv kvs)
  from "12.prems" obtain m where n: "n = Suc m" "weight v \<le> m" "weight_dict (kv # kvs) \<le> m"
    by (cases n) auto
  let ?Z = "newline_indent k @ CHR ''}'' # rest"
  let ?Y = "iterencode_dict level (kv # kvs) @ ?Z"
  have a: "parse_value m (iterencode level v @ CHR '','' # newline_indent level @ ?Y)
          = Some (v, CHR '','' # newline_indent level @ ?Y)"
    using "12.IH"(1) n(2) by simp
  have b: "parse_members m ?Y = Some (kv # kvs, rest)"
    using "12.IH"(2) n(3) by simp
  show ?case unfolding n(1) using a _ b by (rule parse_members_more) simp
qed

lemma str_int_nonempty: "Suc 0 \<le> length (str_int i)"
  using str_nat_nonempty [of "nat i"] by (cases "str_nat (nat i)") (simp_all add: str_int_def)

lemma weight_le_length:
  shows "weight v \<le> length (iterencode level v)"
    and "weight_list xs \<le> Suc (length (iterencode_list level xs))"
    and "weight_dict kvs \<le> Suc (length (iterencode_dict level kvs))"
proof (induction level v and level xs and level kvs
    rule: iterencode_iterencode_list_iterencode_dict.induct)
  case (2 level i)
  then show ?case using str_int_nonempty [of i] by simp
next
  case (5 level xs)
  then show ?case by (cases "xs = []") (simp_all add: newline_indent_def)
next
  case (6 level kvs)
  then show ?case by (cases "kvs = []") (simp_all add: newline_indent_def)
qed (simp_all add: encode_basestring_def newline_indent_def)

lemma json_loads_json_dumps: "json_loads (json_dumps v) = Some v"
proof -
  have "weight v \<le> 2 * length (iterencode 0 v) + 1"
    using weight_le_length(1) [of v 0] by simp
  then have "parse_value (2 * length (iterencode 0 v) + 1) (iterencode 0 v @ []) = Some (v, [])"
    by (rule parse_iterencode(1)) simp
  moreover have "skip_ws (iterencode 0 v) = iterencode 0 v"
    using skip_ws_iterencode [of 0 v "[]"] by simp
  ultimately show ?thesis
    by (simp add: json_loads_def json_dumps_def skip_ws_def)
qed

text \<open>
  C7: with \<open>--get-config\<close> set, the program prints one text and ends normally; the
  text is a JSON text, and reading it gives an object whose keys are exactly
  \<open>project\<close>, \<open>runtime\<close>, \<open>dependencies\<close>, \<open>api\<close> and \<open>environment\<close>, each bound
  to the result of the getter of that name. This holds for all values of the constants.
\<close>

theorem get_config_prints_json:
  "\<exists>text doc.
     main c env \<lparr>arg_get_config = True, arg_install = i, arg_info = f\<rparr> out = (Inr (), out @ [text])
     \<and> json_loads text = Some doc
     \<and> keys doc = [''project'', ''runtime'', ''dependencies'', ''api'', ''environment'']
     \<and> getitem doc ''project'' = Inr (get_project_info c)
     \<and> getitem doc ''runtime'' = Inr (get_runtime_config c)
     \<and> getitem doc ''dependencies'' = Inr (get_dependencies c)
     \<and> getitem doc ''api'' = Inr (get_api_config c)
     \<and> getitem doc ''environment'' = Inr (get_env_config c)"
proof (intro exI conjI)
  show "main c env \<lparr>arg_get_config = True, arg_install = i, arg_info = f\<rparr> out =
          (Inr (), out @ [json_dumps (config_document c)])"
    by (simp add: main_def)
  show "json_loads (json_dumps (config_document c)) = Some (config_document c)"
    by (rule json_loads_json_dumps)
qed (simp_all add: config_document_def)

end
